theory Spec2Isabelle
  imports Complex_Main
begin

section \<open>Conventions of the embedding\<close>

text \<open>
  The development embeds the earning limiter (\<^verbatim>\<open>src/services/daily_earning_service.py\<close>
  with the tables of \<^verbatim>\<open>src/models/daily_earning.py\<close>) and the energy regenerator
  (\<^verbatim>\<open>src/utils/energy_calc.py\<close>, \<^verbatim>\<open>src/api/v1/sync_energy.py\<close>,
  \<^verbatim>\<open>src/schemas/user.py\<close>).

  \<^item> Python \<^verbatim>\<open>int\<close> is \<^typ>\<open>int\<close>; \<^verbatim>\<open>//\<close> and \<^verbatim>\<open>%\<close> on it are \<open>div\<close> and \<open>mod\<close>
    (both round towards minus infinity), with the division by zero written out.
  \<^item> Python \<^verbatim>\<open>float\<close> is \<^typ>\<open>real\<close>: amounts of USD, prices and energy values are
    exact numbers here, so binary rounding of IEEE doubles is outside the model.
  \<^item> Every exception is a value of \<open>error\<close>, and a function that can raise returns
    \<open>error + 'a\<close>.
  \<^item> The clock (\<^verbatim>\<open>datetime.utcnow()\<close>), the price feed and the reply of the cache are
    parameters of the functions that read them; the clock is read once per call.
  \<^item> A table is the list of its rows in insertion order. The primary key of a row is
    its position, counted from 1, so primary keys are unique and a fresh row gets the
    next key, as with an auto-increment column. The service never deletes a row.
\<close>

datatype error =
    ZeroDivisionError
  | ValueError
  | MultipleResultsFound
  | NoResultFound
  | IntegrityError
  | ValidationError

section \<open>Configuration: \<^verbatim>\<open>src/core/config.py\<close>\<close>

record settings =
  DAILY_LIMIT_USD :: int
  SECONDS_MAX_RECHARGE :: int
  MAX_CLICKS_PER_PARTITION :: int
  DAILY_EARNING_LIMIT_USD :: int
  EARNING_PARTITIONS_COUNT :: int
  EARNING_PER_PARTITION_USD :: int
  SECONDS_PER_PARTITION :: int

text \<open>The defaults of the \<^verbatim>\<open>Field(default=...)\<close> declarations.\<close>

definition default_settings :: settings where
  "default_settings =
     \<lparr>DAILY_LIMIT_USD = 30,
      SECONDS_MAX_RECHARGE = 10800,
      MAX_CLICKS_PER_PARTITION = 250,
      DAILY_EARNING_LIMIT_USD = 30,
      EARNING_PARTITIONS_COUNT = 6,
      EARNING_PER_PARTITION_USD = 5,
      SECONDS_PER_PARTITION = 14400\<rparr>"

section \<open>Dates and times\<close>

text \<open>
  A \<^verbatim>\<open>datetime\<close> is its date (the proleptic ordinal of the day) and its time of day.
  Python builds only values with \<open>hour < 24\<close>, \<open>minute < 60\<close>, \<open>second < 60\<close> and
  \<open>microsecond < 1000000\<close>; \<open>valid_datetime\<close> says so.
\<close>

record datetime =
  dt_date :: int
  hour :: nat
  minute :: nat
  second :: nat
  microsecond :: nat

definition valid_datetime :: "datetime \<Rightarrow> bool" where
  "valid_datetime t \<longleftrightarrow>
     hour t < 24 \<and> minute t < 60 \<and> second t < 60 \<and> microsecond t < 1000000"

text \<open>\<^verbatim>\<open>a < b\<close> on two datetimes: the lexicographic order of the fields.\<close>

definition dt_less :: "datetime \<Rightarrow> datetime \<Rightarrow> bool" where
  "dt_less a b \<longleftrightarrow>
     dt_date a < dt_date b \<or>
     (dt_date a = dt_date b \<and>
      (hour a < hour b \<or>
       (hour a = hour b \<and>
        (minute a < minute b \<or>
         (minute a = minute b \<and>
          (second a < second b \<or>
           (second a = second b \<and> microsecond a < microsecond b)))))))"

text \<open>
  \<^verbatim>\<open>datetime.min.time().replace(hour=h, minute=m)\<close> raises \<^verbatim>\<open>ValueError\<close> unless
  \<open>h\<close> is in \<open>0..23\<close> and \<open>m\<close> in \<open>0..59\<close>.
\<close>

definition time_replace :: "int \<Rightarrow> int \<Rightarrow> error + nat \<times> nat" where
  "time_replace h m =
     (if 0 \<le> h \<and> h < 24 \<and> 0 \<le> m \<and> m < 60 then Inr (nat h, nat m)
      else Inl ValueError)"

text \<open>\<^verbatim>\<open>int(x)\<close> on a float truncates towards zero.\<close>

definition py_int :: "real \<Rightarrow> int" where
  "py_int x = (if 0 \<le> x then \<lfloor>x\<rfloor> else \<lceil>x\<rceil>)"

text \<open>\<^verbatim>\<open>str(n)\<close> for the integers that appear in the messages.\<close>

definition digit_char :: "nat \<Rightarrow> char" where
  "digit_char d = ''0123456789'' ! d"

fun str_nat :: "nat \<Rightarrow> string" where
  "str_nat n = (if n < 10 then [digit_char n] else str_nat (n div 10) @ [digit_char (n mod 10)])"

declare str_nat.simps [simp del]

definition str_int :: "int \<Rightarrow> string" where
  "str_int i = (if i < 0 then CHR ''-'' # str_nat (nat (- i)) else str_nat (nat i))"

section \<open>Partition addressing\<close>

definition seconds_since_midnight :: "datetime \<Rightarrow> int" where
  "seconds_since_midnight current_time =
     int (hour current_time) * 3600 + int (minute current_time) * 60 + int (second current_time)"

definition calculate_current_partition :: "settings \<Rightarrow> datetime \<Rightarrow> error + int" where
  "calculate_current_partition cfg current_time =
     (if SECONDS_PER_PARTITION cfg = 0 then Inl ZeroDivisionError
      else
        let partition_number =
              seconds_since_midnight current_time div SECONDS_PER_PARTITION cfg + 1
        in Inr (min partition_number (EARNING_PARTITIONS_COUNT cfg)))"

definition calculate_partition_end_time :: "settings \<Rightarrow> int \<Rightarrow> int \<Rightarrow> error + datetime" where
  "calculate_partition_end_time cfg partition_number date_obj =
     (let end_seconds = partition_number * SECONDS_PER_PARTITION cfg;
          end_hour = end_seconds div 3600;
          end_minute = (end_seconds mod 3600) div 60
      in case time_replace end_hour end_minute of
           Inl e \<Rightarrow> Inl e
         | Inr (h, m) \<Rightarrow>
             Inr \<lparr>dt_date = date_obj, hour = h, minute = m, second = 0, microsecond = 0\<rparr>)"

section \<open>Tables: \<^verbatim>\<open>src/models/daily_earning.py\<close>\<close>

text \<open>
  The columns the service reads or writes. \<open>id\<close> is the position of the row in its
  table; \<open>created_at\<close> (and \<open>updated_at\<close> of a partition) is never read or written by the
  operations embedded here and is left out.
\<close>

record DailyEarning =
  de_user_id :: int
  earning_date :: int
  total_earned_usd :: real
  total_earned_luna :: int
  partitions_used :: int
  max_partitions :: int
  is_daily_limit_reached :: bool
  last_partition_reset :: "datetime option"
  updated_at :: datetime

record EarningPartition =
  ep_user_id :: int
  daily_earning_id :: nat
  partition_number :: int
  partition_date :: int
  earned_usd :: real
  earned_luna :: int
  clicks_count :: int
  max_clicks :: int
  is_partition_full :: bool
  partition_start_time :: "datetime option"
  partition_end_time :: "datetime option"

record EarningHistory =
  eh_user_id :: int
  eh_daily_earning_id :: nat
  partition_id :: nat
  click_timestamp :: datetime
  eh_earned_usd :: real
  eh_earned_luna :: int
  luna_price_at_click :: real
  energy_consumed :: int

text \<open>Of a user the service touches only the balance.\<close>

record User =
  balance :: int

record db =
  daily_earnings :: "DailyEarning list"
  earning_partitions :: "EarningPartition list"
  earning_history :: "EarningHistory list"
  users :: "int \<rightharpoonup> User"

text \<open>
  \<^verbatim>\<open>select(...).where(P)\<close>: the rows that satisfy \<open>P\<close>, each with its primary key.
  \<^verbatim>\<open>scalar_one_or_none()\<close> raises when more than one row is selected.
\<close>

definition select_where :: "('r \<Rightarrow> bool) \<Rightarrow> 'r list \<Rightarrow> (nat \<times> 'r) list" where
  "select_where P tbl = filter (\<lambda>ir. P (snd ir)) (enumerate 1 tbl)"

definition scalar_one_or_none :: "'a list \<Rightarrow> error + 'a option" where
  "scalar_one_or_none res =
     (case res of
        [] \<Rightarrow> Inr None
      | [x] \<Rightarrow> Inr (Some x)
      | _ \<Rightarrow> Inl MultipleResultsFound)"

text \<open>\<^verbatim>\<open>session.add(row); commit(); refresh(row)\<close> of a new row, and the write of a loaded row.\<close>

definition insert_row :: "'r \<Rightarrow> 'r list \<Rightarrow> nat \<times> 'r list" where
  "insert_row r tbl = (Suc (length tbl), tbl @ [r])"

definition update_row :: "nat \<Rightarrow> 'r \<Rightarrow> 'r list \<Rightarrow> 'r list" where
  "update_row i r tbl = tbl[i - 1 := r]"

section \<open>The earning limiter: \<^verbatim>\<open>DailyEarningService\<close>\<close>

definition find_daily_earning ::
  "db \<Rightarrow> int \<Rightarrow> int \<Rightarrow> error + (nat \<times> DailyEarning) option" where
  "find_daily_earning s user_id earning_date' =
     scalar_one_or_none
       (select_where (\<lambda>d. de_user_id d = user_id \<and> earning_date d = earning_date')
          (daily_earnings s))"

text \<open>
  The new row takes the column defaults. \<open>user_id\<close> is a foreign key to \<open>users.id\<close>, so
  the commit of a row for an unknown user fails.
\<close>

definition new_daily_earning :: "settings \<Rightarrow> datetime \<Rightarrow> int \<Rightarrow> int \<Rightarrow> DailyEarning" where
  "new_daily_earning cfg now user_id earning_date' =
     \<lparr>de_user_id = user_id,
      earning_date = earning_date',
      total_earned_usd = 0,
      total_earned_luna = 0,
      partitions_used = 0,
      max_partitions = EARNING_PARTITIONS_COUNT cfg,
      is_daily_limit_reached = False,
      last_partition_reset = None,
      updated_at = now\<rparr>"

definition get_or_create_daily_earning ::
  "settings \<Rightarrow> datetime \<Rightarrow> int \<Rightarrow> int \<Rightarrow> db \<Rightarrow> (error + nat \<times> DailyEarning) \<times> db" where
  "get_or_create_daily_earning cfg now user_id earning_date' s =
     (case find_daily_earning s user_id earning_date' of
        Inl e \<Rightarrow> (Inl e, s)
      | Inr (Some row) \<Rightarrow> (Inr row, s)
      | Inr None \<Rightarrow>
          (if users s user_id = None then (Inl IntegrityError, s)
           else
             let daily_earning = new_daily_earning cfg now user_id earning_date';
                 (i, tbl) = insert_row daily_earning (daily_earnings s)
             in (Inr (i, daily_earning), s\<lparr>daily_earnings := tbl\<rparr>)))"

definition find_partition ::
  "db \<Rightarrow> int \<Rightarrow> nat \<Rightarrow> int \<Rightarrow> int \<Rightarrow> error + (nat \<times> EarningPartition) option" where
  "find_partition s user_id daily_earning_id' partition_number' partition_date' =
     scalar_one_or_none
       (select_where
          (\<lambda>p. ep_user_id p = user_id \<and> daily_earning_id p = daily_earning_id' \<and>
               partition_number p = partition_number' \<and> partition_date p = partition_date')
          (earning_partitions s))"

definition new_partition :: "settings \<Rightarrow> int \<Rightarrow> nat \<Rightarrow> int \<Rightarrow> int \<Rightarrow> EarningPartition" where
  "new_partition cfg user_id daily_earning_id' partition_number' partition_date' =
     \<lparr>ep_user_id = user_id,
      daily_earning_id = daily_earning_id',
      partition_number = partition_number',
      partition_date = partition_date',
      earned_usd = 0,
      earned_luna = 0,
      clicks_count = 0,
      max_clicks = MAX_CLICKS_PER_PARTITION cfg,
      is_partition_full = False,
      partition_start_time = None,
      partition_end_time = None\<rparr>"

text \<open>
  \<open>user_id\<close> and \<open>daily_earning_id\<close> are foreign keys (to \<open>users.id\<close> and
  \<open>daily_earnings.id\<close>).
\<close>

definition get_or_create_partition ::
  "settings \<Rightarrow> int \<Rightarrow> nat \<Rightarrow> int \<Rightarrow> int \<Rightarrow> db \<Rightarrow> (error + nat \<times> EarningPartition) \<times> db" where
  "get_or_create_partition cfg user_id daily_earning_id' partition_number' partition_date' s =
     (case find_partition s user_id daily_earning_id' partition_number' partition_date' of
        Inl e \<Rightarrow> (Inl e, s)
      | Inr (Some row) \<Rightarrow> (Inr row, s)
      | Inr None \<Rightarrow>
          (if users s user_id = None \<or>
              \<not> (1 \<le> daily_earning_id' \<and> daily_earning_id' \<le> length (daily_earnings s))
           then (Inl IntegrityError, s)
           else
             let part =
                   new_partition cfg user_id daily_earning_id' partition_number' partition_date';
                 (i, tbl) = insert_row part (earning_partitions s)
             in (Inr (i, part), s\<lparr>earning_partitions := tbl\<rparr>)))"

text \<open>
  The query of \<^verbatim>\<open>can_user_earn_in_partition\<close> does not filter on the daily record.
\<close>

definition can_user_earn_in_partition ::
  "settings \<Rightarrow> db \<Rightarrow> int \<Rightarrow> int \<Rightarrow> int \<Rightarrow> error + bool \<times> string" where
  "can_user_earn_in_partition cfg s user_id partition_number' partition_date' =
     (case scalar_one_or_none
             (select_where
                (\<lambda>p. ep_user_id p = user_id \<and> partition_number p = partition_number' \<and>
                     partition_date p = partition_date')
                (earning_partitions s)) of
        Inl e \<Rightarrow> Inl e
      | Inr None \<Rightarrow> Inr (True, ''Partition not found, will be created'')
      | Inr (Some (i, part)) \<Rightarrow>
          if is_partition_full part then
            Inr (False, ''Partition '' @ str_int partition_number' @ '' is full'')
          else if clicks_count part \<ge> max_clicks part then
            Inr (False, ''Partition '' @ str_int partition_number' @ '' reached max clicks'')
          else if earned_usd part \<ge> real_of_int (EARNING_PER_PARTITION_USD cfg) then
            Inr (False, ''Partition '' @ str_int partition_number' @ '' reached earning limit'')
          else Inr (True, ''Can earn in partition''))"

text \<open>
  The amount of one click: the base amount times the energy multiplier, clamped to what
  is left in the partition and then to what is left in the day.
\<close>

definition click_earned_usd ::
  "settings \<Rightarrow> EarningPartition \<Rightarrow> DailyEarning \<Rightarrow> int \<Rightarrow> real" where
  "click_earned_usd cfg part daily_earning energy_consumed' =
     (let base_earning_per_click = 0.01;
          energy_multiplier = min (real_of_int energy_consumed' / 100) 2.0;
          earned = base_earning_per_click * energy_multiplier;
          earned =
            (if earned_usd part + earned > real_of_int (EARNING_PER_PARTITION_USD cfg)
             then max 0 (real_of_int (EARNING_PER_PARTITION_USD cfg) - earned_usd part)
             else earned);
          earned =
            (if total_earned_usd daily_earning + earned
                  > real_of_int (DAILY_EARNING_LIMIT_USD cfg)
             then max 0 (real_of_int (DAILY_EARNING_LIMIT_USD cfg)
                         - total_earned_usd daily_earning)
             else earned)
      in earned)"

definition updated_partition ::
  "settings \<Rightarrow> datetime \<Rightarrow> real \<Rightarrow> int \<Rightarrow> EarningPartition \<Rightarrow> EarningPartition" where
  "updated_partition cfg current_time earned earned_luna' part =
     (let part = part
            \<lparr>earned_usd := earned_usd part + earned,
             earned_luna := earned_luna part + earned_luna',
             clicks_count := clicks_count part + 1\<rparr>
      in if clicks_count part \<ge> max_clicks part \<or>
            earned_usd part \<ge> real_of_int (EARNING_PER_PARTITION_USD cfg)
         then part\<lparr>is_partition_full := True, partition_end_time := Some current_time\<rparr>
         else part)"

definition updated_daily_earning ::
  "settings \<Rightarrow> datetime \<Rightarrow> real \<Rightarrow> int \<Rightarrow> DailyEarning \<Rightarrow> DailyEarning" where
  "updated_daily_earning cfg current_time earned earned_luna' daily_earning =
     (let daily_earning = daily_earning
            \<lparr>total_earned_usd := total_earned_usd daily_earning + earned,
             total_earned_luna := total_earned_luna daily_earning + earned_luna',
             updated_at := current_time\<rparr>
      in if total_earned_usd daily_earning \<ge> real_of_int (DAILY_EARNING_LIMIT_USD cfg)
         then daily_earning\<lparr>is_daily_limit_reached := True\<rparr>
         else daily_earning)"

text \<open>
  \<^verbatim>\<open>process_click_earning\<close>. The two get-or-create calls commit on their own; everything
  after them is written by the one commit at the end, so an exception in between leaves
  the database as those calls left it. The result is the returned tuple
  \<open>(accepted, earned_usd, earned_luna, message)\<close> or the exception, with the database
  after the call.
\<close>

definition process_click_earning ::
  "settings \<Rightarrow> datetime \<Rightarrow> int \<Rightarrow> int \<Rightarrow> real \<Rightarrow> db \<Rightarrow>
     (error + bool \<times> real \<times> int \<times> string) \<times> db" where
  "process_click_earning cfg current_time user_id energy_consumed' luna_price s =
     (let current_date = dt_date current_time in
      case get_or_create_daily_earning cfg current_time user_id current_date s of
        (Inl e, s1) \<Rightarrow> (Inl e, s1)
      | (Inr (did, daily_earning), s1) \<Rightarrow>
          if is_daily_limit_reached daily_earning then
            (Inr (False, 0, 0, ''Daily earning limit reached''), s1)
          else
            case calculate_current_partition cfg current_time of
              Inl e \<Rightarrow> (Inl e, s1)
            | Inr current_partition_number \<Rightarrow>
                case can_user_earn_in_partition cfg s1 user_id current_partition_number
                       current_date of
                  Inl e \<Rightarrow> (Inl e, s1)
                | Inr (can_earn, message) \<Rightarrow>
                    if \<not> can_earn then (Inr (False, 0, 0, message), s1)
                    else
                      case get_or_create_partition cfg user_id did current_partition_number
                             current_date s1 of
                        (Inl e, s2) \<Rightarrow> (Inl e, s2)
                      | (Inr (pid, part), s2) \<Rightarrow>
                          let earned = click_earned_usd cfg part daily_earning
                                         energy_consumed'
                          in
                            if earned \<le> 0 then
                              (Inr (False, 0, 0, ''No earnings possible due to limits''), s2)
                            else if luna_price = 0 then (Inl ZeroDivisionError, s2)
                            else
                              let earned_luna' = py_int ((earned / luna_price) * 1000000);
                                  part' = updated_partition cfg current_time earned
                                                 earned_luna' part;
                                  daily_earning' = updated_daily_earning cfg current_time earned
                                                     earned_luna' daily_earning;
                                  earning_history' =
                                    \<lparr>eh_user_id = user_id,
                                     eh_daily_earning_id = did,
                                     partition_id = pid,
                                     click_timestamp = current_time,
                                     eh_earned_usd = earned,
                                     eh_earned_luna = earned_luna',
                                     luna_price_at_click = luna_price,
                                     energy_consumed = energy_consumed'\<rparr>
                              in
                                case users s2 user_id of
                                  None \<Rightarrow> (Inl NoResultFound, s2)
                                | Some user \<Rightarrow>
                                    (Inr (True, earned, earned_luna',
                                          ''Earning processed successfully''),
                                     s2\<lparr>earning_partitions :=
                                          update_row pid part' (earning_partitions s2),
                                        daily_earnings :=
                                          update_row did daily_earning' (daily_earnings s2),
                                        earning_history :=
                                          earning_history s2 @ [earning_history'],
                                        users :=
                                          (users s2)(user_id \<mapsto>
                                            user\<lparr>balance := balance user + earned_luna'\<rparr>)\<rparr>))"

text \<open>The dictionary that \<^verbatim>\<open>get_daily_earning_status\<close> returns.\<close>

record daily_status =
  st_user_id :: int
  st_earning_date :: int
  st_total_earned_usd :: real
  st_total_earned_luna :: int
  st_daily_limit_usd :: int
  st_remaining_usd :: real
  st_partitions_used :: int
  st_max_partitions :: int
  st_is_daily_limit_reached :: bool
  st_current_partition :: int
  st_current_partition_earned_usd :: real
  st_current_partition_clicks :: int
  st_current_partition_max_clicks :: int
  st_next_partition_reset_time :: "datetime option"
  st_last_click_time :: "datetime option"

text \<open>
  \<^verbatim>\<open>order_by(click_timestamp.desc()).limit(1)\<close> over the clicks of a user; only the
  timestamp of the selected row is used, which is the latest one.
\<close>

definition last_click_time :: "db \<Rightarrow> int \<Rightarrow> datetime option" where
  "last_click_time s user_id =
     (case map click_timestamp (filter (\<lambda>h. eh_user_id h = user_id) (earning_history s)) of
        [] \<Rightarrow> None
      | t # ts \<Rightarrow> Some (fold (\<lambda>x m. if dt_less m x then x else m) ts t))"

text \<open>
  \<^verbatim>\<open>get_daily_earning_status(user_id, target_date)\<close>; \<open>None\<close> for the date means today.
  The partition query filters on the user, the daily record and the partition number.
\<close>

definition get_daily_earning_status ::
  "settings \<Rightarrow> datetime \<Rightarrow> int \<Rightarrow> int option \<Rightarrow> db \<Rightarrow> error + daily_status" where
  "get_daily_earning_status cfg now user_id target_date_opt s =
     (let target_date = (case target_date_opt of None \<Rightarrow> dt_date now | Some d \<Rightarrow> d) in
      case find_daily_earning s user_id target_date of
        Inl e \<Rightarrow> Inl e
      | Inr None \<Rightarrow>
          (case calculate_current_partition cfg now of
             Inl e \<Rightarrow> Inl e
           | Inr current_partition_number \<Rightarrow>
               Inr \<lparr>st_user_id = user_id,
                    st_earning_date = target_date,
                    st_total_earned_usd = 0,
                    st_total_earned_luna = 0,
                    st_daily_limit_usd = DAILY_EARNING_LIMIT_USD cfg,
                    st_remaining_usd = real_of_int (DAILY_EARNING_LIMIT_USD cfg),
                    st_partitions_used = 0,
                    st_max_partitions = EARNING_PARTITIONS_COUNT cfg,
                    st_is_daily_limit_reached = False,
                    st_current_partition = current_partition_number,
                    st_current_partition_earned_usd = 0,
                    st_current_partition_clicks = 0,
                    st_current_partition_max_clicks = MAX_CLICKS_PER_PARTITION cfg,
                    st_next_partition_reset_time = None,
                    st_last_click_time = None\<rparr>)
      | Inr (Some (did, daily_earning)) \<Rightarrow>
          (case calculate_current_partition cfg now of
             Inl e \<Rightarrow> Inl e
           | Inr current_partition_number \<Rightarrow>
               case scalar_one_or_none
                      (select_where
                         (\<lambda>p. ep_user_id p = user_id \<and> daily_earning_id p = did \<and>
                              partition_number p = current_partition_number)
                         (earning_partitions s)) of
                 Inl e \<Rightarrow> Inl e
               | Inr current_partition \<Rightarrow>
                   let last_click = last_click_time s user_id in
                   case calculate_partition_end_time cfg current_partition_number target_date of
                     Inl e \<Rightarrow> Inl e
                   | Inr partition_end_time' \<Rightarrow>
                       let next_reset_time =
                             (if dt_less now partition_end_time' then Some partition_end_time'
                              else None)
                       in
                         Inr \<lparr>st_user_id = user_id,
                              st_earning_date = target_date,
                              st_total_earned_usd = total_earned_usd daily_earning,
                              st_total_earned_luna = total_earned_luna daily_earning,
                              st_daily_limit_usd = DAILY_EARNING_LIMIT_USD cfg,
                              st_remaining_usd =
                                max 0 (real_of_int (DAILY_EARNING_LIMIT_USD cfg)
                                       - total_earned_usd daily_earning),
                              st_partitions_used = partitions_used daily_earning,
                              st_max_partitions = max_partitions daily_earning,
                              st_is_daily_limit_reached = is_daily_limit_reached daily_earning,
                              st_current_partition = current_partition_number,
                              st_current_partition_earned_usd =
                                (case current_partition of
                                   Some (i, p) \<Rightarrow> earned_usd p | None \<Rightarrow> 0),
                              st_current_partition_clicks =
                                (case current_partition of
                                   Some (i, p) \<Rightarrow> clicks_count p | None \<Rightarrow> 0),
                              st_current_partition_max_clicks = MAX_CLICKS_PER_PARTITION cfg,
                              st_next_partition_reset_time = next_reset_time,
                              st_last_click_time = last_click\<rparr>))"

section \<open>The energy regenerator\<close>

subsection \<open>The cache\<close>

text \<open>
  The key \<^verbatim>\<open>energy:calc\<close> holds the global parameters and the key
  \<^verbatim>\<open>user:energy:<telegram_id>\<close> the snapshot of a user, both as JSON. A time is the value of
  \<^verbatim>\<open>.timestamp()\<close>, in seconds. Expiry of a key and a lost connection are not modelled: a
  key is present or absent.
\<close>

record energy_data =
  current_price :: real
  daily_limit :: int
  charge_per_second :: real
  max_energy_per_part :: real
  discharge_per_click :: real

record user_energy =
  ue_balance :: real
  ue_value :: real
  ue_sync_at :: real

record redis =
  energy_calc :: "energy_data option"
  user_energy_key :: "int \<rightharpoonup> user_energy"

subsection \<open>\<^verbatim>\<open>src/utils/energy_calc.py\<close>\<close>

text \<open>
  \<^verbatim>\<open>round(x, 3)\<close>: the nearest multiple of \<open>0.001\<close>, a tie going to the even one.
\<close>

definition round_half_even :: "real \<Rightarrow> int" where
  "round_half_even x =
     (let f = \<lfloor>x\<rfloor>; d = x - real_of_int f
      in if d < 1 / 2 then f
         else if d > 1 / 2 then f + 1
         else if even f then f else f + 1)"

definition py_round3 :: "real \<Rightarrow> real" where
  "py_round3 x = real_of_int (round_half_even (x * 1000)) / 1000"

text \<open>
  \<^verbatim>\<open>calculate_energy()\<close>. \<open>fetched_price\<close> is what \<^verbatim>\<open>get_luna_price_binance()\<close> returns
  (\<open>None\<close> when the request fails) and \<open>set_reply\<close> the reply of \<^verbatim>\<open>redis.set\<close>; a reply
  \<open>None\<close> means that the key was not written.
\<close>

definition calculate_energy ::
  "settings \<Rightarrow> real option \<Rightarrow> bool option \<Rightarrow> redis \<Rightarrow> (error + energy_data) \<times> redis" where
  "calculate_energy cfg fetched_price set_reply r =
     (case fetched_price of
        None \<Rightarrow> (Inl ValueError, r)
      | Some current_price' \<Rightarrow>
          let daily_limit' = \<lfloor>real_of_int (DAILY_LIMIT_USD cfg) * current_price'\<rfloor>;
              daily_limit' = daily_limit' * 10000;
              charge_per_second' = real_of_int daily_limit' / (24 * 60 * 60);
              max_energy_per_part' = charge_per_second' * real_of_int (SECONDS_MAX_RECHARGE cfg)
          in
            if MAX_CLICKS_PER_PARTITION cfg = 0 then (Inl ZeroDivisionError, r)
            else
              let discharge_per_click' =
                    max_energy_per_part' / real_of_int (MAX_CLICKS_PER_PARTITION cfg);
                  data =
                    \<lparr>current_price = current_price',
                     daily_limit = daily_limit',
                     charge_per_second =
                       real_of_int \<lfloor>py_round3 charge_per_second' * 20\<rfloor> / 20,
                     max_energy_per_part = max_energy_per_part',
                     discharge_per_click = discharge_per_click'\<rparr>
              in case set_reply of
                   None \<Rightarrow> (Inl ValueError, r)
                 | Some _ \<Rightarrow> (Inr data, r\<lparr>energy_calc := Some data\<rparr>))"

subsection \<open>\<^verbatim>\<open>src/schemas/user.py\<close> and \<^verbatim>\<open>src/api/v1/sync_energy.py\<close>\<close>

record SGetSyncBalance =
  sb_balance :: int
  sb_value :: real
  sb_sync_at :: real
  seconds_recharge :: int
  sb_charge_per_second :: real

text \<open>The validator of \<open>seconds_recharge\<close>; it runs whenever the model is built.\<close>

definition calculate_seconds_recharge :: "real \<Rightarrow> real \<Rightarrow> int" where
  "calculate_seconds_recharge now sync_at =
     (let seconds = py_int now - py_int sync_at
      in if seconds < 10800 then seconds else 10800)"

text \<open>
  \<^verbatim>\<open>SGetSyncBalance(balance=..., value=..., sync_at=..., charge_per_second=...)\<close>. The
  field \<open>balance\<close> is declared \<^verbatim>\<open>int\<close>: a float is accepted when it has no fractional part
  and is a validation error otherwise.
\<close>

definition mk_SGetSyncBalance ::
  "real \<Rightarrow> real \<Rightarrow> real \<Rightarrow> real \<Rightarrow> real \<Rightarrow> error + SGetSyncBalance" where
  "mk_SGetSyncBalance now balance' value' sync_at charge =
     (if real_of_int \<lfloor>balance'\<rfloor> \<noteq> balance' then Inl ValidationError
      else
        Inr \<lparr>sb_balance = \<lfloor>balance'\<rfloor>,
             sb_value = value',
             sb_sync_at = sync_at,
             seconds_recharge = calculate_seconds_recharge now sync_at,
             sb_charge_per_second = charge\<rparr>)"

definition get_cached_energy ::
  "settings \<Rightarrow> real option \<Rightarrow> bool option \<Rightarrow> redis \<Rightarrow> (error + energy_data) \<times> redis" where
  "get_cached_energy cfg fetched_price set_reply r =
     (case energy_calc r of
        Some cached_energy \<Rightarrow> (Inr cached_energy, r)
      | None \<Rightarrow> calculate_energy cfg fetched_price set_reply r)"

text \<open>\<^verbatim>\<open>POST /{telegram_id}\<close>: the snapshot is stored before the response model is built.\<close>

definition sync_energy ::
  "real \<Rightarrow> int \<Rightarrow> real \<Rightarrow> real \<Rightarrow> redis \<Rightarrow> (error + SGetSyncBalance) \<times> redis" where
  "sync_energy now telegram_id balance' value' r =
     (let data = \<lparr>ue_balance = balance', ue_value = value', ue_sync_at = now\<rparr>;
          r' = r\<lparr>user_energy_key := (user_energy_key r)(telegram_id \<mapsto> data)\<rparr>
      in (mk_SGetSyncBalance now balance' value' now 0, r'))"

text \<open>\<^verbatim>\<open>GET /{telegram_id}\<close>: the projection is returned and not written back.\<close>

definition get_sync_energy ::
  "settings \<Rightarrow> real \<Rightarrow> real option \<Rightarrow> bool option \<Rightarrow> int \<Rightarrow> redis \<Rightarrow>
     (error + SGetSyncBalance) \<times> redis" where
  "get_sync_energy cfg now fetched_price set_reply telegram_id r =
     (let cached_data = user_energy_key r telegram_id in
      case get_cached_energy cfg fetched_price set_reply r of
        (Inl e, r') \<Rightarrow> (Inl e, r')
      | (Inr energy, r') \<Rightarrow>
          let charge_rate = charge_per_second energy;
              max_energy = max_energy_per_part energy
          in
            case cached_data of
              Some data \<Rightarrow>
                (case mk_SGetSyncBalance now (ue_balance data) (ue_value data)
                        (ue_sync_at data) 0 of
                   Inl e \<Rightarrow> (Inl e, r')
                 | Inr res \<Rightarrow>
                     (Inr (res\<lparr>sb_value :=
                                  min (sb_value res
                                       + charge_rate * real_of_int (seconds_recharge res))
                                      max_energy,
                                sb_charge_per_second := charge_rate\<rparr>),
                      r'))
            | None \<Rightarrow> (mk_SGetSyncBalance now 0 max_energy now charge_rate, r'))"

section \<open>Concrete states and times used in the examples\<close>

definition scenario_time :: datetime where
  "scenario_time = \<lparr>dt_date = 738000, hour = 9, minute = 30, second = 0, microsecond = 0\<rparr>"

definition evening_time :: datetime where
  "evening_time = \<lparr>dt_date = 738000, hour = 21, minute = 15, second = 40, microsecond = 0\<rparr>"



text \<open>A user whose record of the day has reached the daily limit.\<close>

definition capped_daily_earning :: DailyEarning where
  "capped_daily_earning =
     \<lparr>de_user_id = 1, earning_date = 738000, total_earned_usd = 30,
      total_earned_luna = 60000000, partitions_used = 0, max_partitions = 6,
      is_daily_limit_reached = True, last_partition_reset = None,
      updated_at = scenario_time\<rparr>"

definition capped_db :: db where
  "capped_db = \<lparr>daily_earnings = [capped_daily_earning], earning_partitions = [],
                earning_history = [], users = [1 \<mapsto> \<lparr>balance = 60000000\<rparr>]\<rparr>"

section \<open>Runs of clicks\<close>




text \<open>
  The totals of the record of a user and a day, as the query of the service finds it;
  zero when there is no such record.
\<close>

definition daily_totals :: "db \<Rightarrow> int \<Rightarrow> int \<Rightarrow> real \<times> int" where
  "daily_totals s user_id earning_date' =
     (case find_daily_earning s user_id earning_date' of
        Inr (Some (i, d)) \<Rightarrow> (total_earned_usd d, total_earned_luna d)
      | _ \<Rightarrow> (0, 0))"

text \<open>
  A sequence of calls, each with its own time, user, energy and price; the result of a
  call is dropped and the database is passed on, also after an exception.
\<close>

fun run_calls :: "settings \<Rightarrow> (datetime \<times> int \<times> int \<times> real) list \<Rightarrow> db \<Rightarrow> db" where
  "run_calls cfg [] s = s"
| "run_calls cfg ((now, user_id, energy, price) # cs) s =
     run_calls cfg cs (snd (process_click_earning cfg now user_id energy price s))"

section \<open>The energy parameters as the specification words them\<close>


text \<open>
  The projection of a snapshot as the specification words it, with the configured
  \<open>seconds_max_recharge\<close> as the bound of the recharge time.
\<close>

definition spec_seconds_recharge :: "settings \<Rightarrow> real \<Rightarrow> user_energy \<Rightarrow> int" where
  "spec_seconds_recharge cfg now snapshot =
     min (py_int now - py_int (ue_sync_at snapshot)) (SECONDS_MAX_RECHARGE cfg)"

definition spec_projected_value ::
  "settings \<Rightarrow> energy_data \<Rightarrow> real \<Rightarrow> user_energy \<Rightarrow> real" where
  "spec_projected_value cfg energy now snapshot =
     min (ue_value snapshot
          + charge_per_second energy * real_of_int (spec_seconds_recharge cfg now snapshot))
         (max_energy_per_part energy)"

section \<open>Concrete caches used in the examples\<close>

definition empty_redis :: redis where
  "empty_redis = \<lparr>energy_calc = None, user_energy_key = Map.empty\<rparr>"


text \<open>
  A deployment that sets \<^verbatim>\<open>SECONDS_MAX_RECHARGE=3600\<close>, its parameters at a price of 0.5,
  and a user whose empty snapshot was stored at time 1000.
\<close>

definition short_recharge_settings :: settings where
  "short_recharge_settings = default_settings\<lparr>SECONDS_MAX_RECHARGE := 3600\<rparr>"

definition short_recharge_energy :: energy_data where
  "short_recharge_energy =
     \<lparr>current_price = 1 / 2, daily_limit = 150000, charge_per_second = 17 / 10,
      max_energy_per_part = 6250, discharge_per_click = 25\<rparr>"

definition drained_snapshot :: user_energy where
  "drained_snapshot = \<lparr>ue_balance = 0, ue_value = 0, ue_sync_at = 1000\<rparr>"

definition drained_redis :: redis where
  "drained_redis = empty_redis\<lparr>user_energy_key := [7 \<mapsto> drained_snapshot]\<rparr>"

section \<open>Queries and row updates\<close>

lemma scalar_one_or_none_Some: "scalar_one_or_none xs = Inr (Some x) \<longleftrightarrow> xs = [x]"
  by (auto simp: scalar_one_or_none_def split: list.splits)

lemma scalar_one_or_none_None: "scalar_one_or_none xs = Inr None \<longleftrightarrow> xs = []"
  by (auto simp: scalar_one_or_none_def split: list.splits)

lemma select_where_mem:
  "(i, r) \<in> set (select_where P t) \<longleftrightarrow> 1 \<le> i \<and> i \<le> length t \<and> t ! (i - 1) = r \<and> P r"
  by (auto simp: select_where_def in_set_enumerate_eq)

lemma select_where_append:
  "select_where P (t @ [r]) = select_where P t @ (if P r then [(Suc (length t), r)] else [])"
  by (simp add: select_where_def enumerate_append_eq)

text \<open>
  Writing a row whose key columns are unchanged replaces it in every query result and
  leaves the selection as it was.
\<close>

lemma filter_enumerate_update:
  "k < length t \<Longrightarrow> P r = P (t ! k) \<Longrightarrow>
   filter (\<lambda>ir. P (snd ir)) (enumerate n (t[k := r])) =
   map (\<lambda>(j, x). (j, if j = n + k then r else x)) (filter (\<lambda>ir. P (snd ir)) (enumerate n t))"
proof (induction t arbitrary: n k)
  case Nil
  then show ?case by simp
next
  case (Cons a t)
  show ?case
  proof (cases k)
    case 0
    have "\<And>ir. ir \<in> set (enumerate (Suc n) t) \<Longrightarrow> fst ir \<noteq> n"
      by (auto simp: in_set_enumerate_eq)
    then have "map (\<lambda>(j, x). (j, if j = n then r else x))
                 (filter (\<lambda>ir. P (snd ir)) (enumerate (Suc n) t))
               = filter (\<lambda>ir. P (snd ir)) (enumerate (Suc n) t)"
      by (intro map_idI) auto
    with 0 Cons.prems show ?thesis by simp
  next
    case (Suc k')
    with Cons.prems have "k' < length t" "P r = P (t ! k')" by simp_all
    from Cons.IH [OF this, of "Suc n"] Suc show ?thesis by simp
  qed
qed

lemma select_where_update:
  assumes "1 \<le> i" "i \<le> length t" "P r = P (t ! (i - 1))"
  shows "select_where P (update_row i r t) =
         map (\<lambda>(j, x). (j, if j = i then r else x)) (select_where P t)"
proof -
  have "i - 1 < length t" using assms by simp
  from filter_enumerate_update [OF this assms(3), of 1] assms(1)
  show ?thesis by (simp add: select_where_def update_row_def)
qed

lemma select_where_update_single:
  assumes "select_where P t = [(i, r0)]" "P r"
  shows "select_where P (update_row i r t) = [(i, r)]"
proof -
  have "(i, r0) \<in> set (select_where P t)" using assms(1) by simp
  then have h: "1 \<le> i" "i \<le> length t" "t ! (i - 1) = r0" "P r0"
    by (simp_all add: select_where_mem)
  then have "P r = P (t ! (i - 1))" using assms(2) by simp
  from select_where_update [OF h(1) h(2) this] assms(1) show ?thesis by simp
qed

lemma find_daily_earning_key:
  assumes "find_daily_earning s uid date = Inr (Some (did, d))"
  shows "de_user_id d = uid" "earning_date d = date"
proof -
  from assms have "(did, d) \<in> set (select_where
      (\<lambda>d. de_user_id d = uid \<and> earning_date d = date) (daily_earnings s))"
    by (simp add: find_daily_earning_def scalar_one_or_none_Some)
  then show "de_user_id d = uid" "earning_date d = date"
    by (simp_all add: select_where_mem)
qed

lemma find_partition_key:
  assumes "find_partition s uid did pn date = Inr (Some (pid, p))"
  shows "ep_user_id p = uid" "daily_earning_id p = did" "partition_number p = pn"
    "partition_date p = date"
proof -
  from assms have "(pid, p) \<in> set (select_where
      (\<lambda>p. ep_user_id p = uid \<and> daily_earning_id p = did \<and>
           partition_number p = pn \<and> partition_date p = date) (earning_partitions s))"
    by (simp add: find_partition_def scalar_one_or_none_Some)
  then show "ep_user_id p = uid" "daily_earning_id p = did" "partition_number p = pn"
    "partition_date p = date"
    by (simp_all add: select_where_mem)
qed

lemma find_daily_earning_update:
  assumes "find_daily_earning s uid date = Inr (Some (did, d))"
    and "de_user_id d' = uid" "earning_date d' = date"
    and "daily_earnings s' = update_row did d' (daily_earnings s)"
  shows "find_daily_earning s' uid date = Inr (Some (did, d'))"
  using assms
  by (simp add: find_daily_earning_def scalar_one_or_none_Some select_where_update_single)

lemma find_partition_update:
  assumes "find_partition s uid did pn date = Inr (Some (pid, p))"
    and "ep_user_id p' = uid" "daily_earning_id p' = did" "partition_number p' = pn"
      "partition_date p' = date"
    and "earning_partitions s' = update_row pid p' (earning_partitions s)"
  shows "find_partition s' uid did pn date = Inr (Some (pid, p'))"
  using assms
  by (simp add: find_partition_def scalar_one_or_none_Some select_where_update_single)

section \<open>Get-or-create\<close>

lemma get_or_create_daily_earning_post:
  assumes "get_or_create_daily_earning cfg now uid date s = (Inr (did, d), s1)"
  shows "find_daily_earning s1 uid date = Inr (Some (did, d)) \<and>
         earning_partitions s1 = earning_partitions s \<and>
         earning_history s1 = earning_history s \<and> users s1 = users s \<and>
         (s1 = s \<or> (find_daily_earning s uid date = Inr None \<and>
            d = new_daily_earning cfg now uid date \<and>
            s1 = s\<lparr>daily_earnings := daily_earnings s @ [d]\<rparr>))"
proof (cases "find_daily_earning s uid date")
  case (Inl e)
  with assms show ?thesis by (simp add: get_or_create_daily_earning_def)
next
  case (Inr ro)
  show ?thesis
  proof (cases ro)
    case (Some row)
    with Inr assms show ?thesis by (auto simp: get_or_create_daily_earning_def)
  next
    case None
    with Inr have e: "select_where (\<lambda>d. de_user_id d = uid \<and> earning_date d = date)
                        (daily_earnings s) = []"
      by (simp add: find_daily_earning_def scalar_one_or_none_None)
    from None Inr assms have r: "d = new_daily_earning cfg now uid date"
      "did = Suc (length (daily_earnings s))"
      "s1 = s\<lparr>daily_earnings := daily_earnings s @ [d]\<rparr>"
      by (auto simp: get_or_create_daily_earning_def insert_row_def Let_def split: if_splits)
    have "find_daily_earning s1 uid date = Inr (Some (did, d))"
      using e r by (simp add: find_daily_earning_def select_where_append
          scalar_one_or_none_Some new_daily_earning_def)
    with r None Inr show ?thesis by simp
  qed
qed

lemma get_or_create_partition_post:
  assumes "get_or_create_partition cfg uid did pn date s = (Inr (pid, p), s1)"
  shows "find_partition s1 uid did pn date = Inr (Some (pid, p)) \<and>
         daily_earnings s1 = daily_earnings s \<and>
         earning_history s1 = earning_history s \<and> users s1 = users s \<and>
         (s1 = s \<or> (find_partition s uid did pn date = Inr None \<and>
            p = new_partition cfg uid did pn date \<and>
            s1 = s\<lparr>earning_partitions := earning_partitions s @ [p]\<rparr>))"
proof (cases "find_partition s uid did pn date")
  case (Inl e)
  with assms show ?thesis by (simp add: get_or_create_partition_def)
next
  case (Inr ro)
  show ?thesis
  proof (cases ro)
    case (Some row)
    with Inr assms show ?thesis by (auto simp: get_or_create_partition_def)
  next
    case None
    with Inr have e: "select_where (\<lambda>p. ep_user_id p = uid \<and> daily_earning_id p = did \<and>
               partition_number p = pn \<and> partition_date p = date) (earning_partitions s) = []"
      by (simp add: find_partition_def scalar_one_or_none_None)
    from None Inr assms have r: "p = new_partition cfg uid did pn date"
      "pid = Suc (length (earning_partitions s))"
      "s1 = s\<lparr>earning_partitions := earning_partitions s @ [p]\<rparr>"
      by (auto simp: get_or_create_partition_def insert_row_def Let_def split: if_splits)
    have "find_partition s1 uid did pn date = Inr (Some (pid, p))"
      using e r by (simp add: find_partition_def select_where_append
          scalar_one_or_none_Some new_partition_def)
    with r None Inr show ?thesis by simp
  qed
qed

section \<open>One click\<close>


lemma updated_partition_fields:
  "ep_user_id (updated_partition cfg now e el p) = ep_user_id p"
  "daily_earning_id (updated_partition cfg now e el p) = daily_earning_id p"
  "partition_number (updated_partition cfg now e el p) = partition_number p"
  "partition_date (updated_partition cfg now e el p) = partition_date p"
  "earned_usd (updated_partition cfg now e el p) = earned_usd p + e"
  "earned_luna (updated_partition cfg now e el p) = earned_luna p + el"
  "clicks_count (updated_partition cfg now e el p) = clicks_count p + 1"
  "max_clicks (updated_partition cfg now e el p) = max_clicks p"
  by (simp_all add: updated_partition_def Let_def)


lemma updated_daily_earning_fields:
  "de_user_id (updated_daily_earning cfg now e el d) = de_user_id d"
  "earning_date (updated_daily_earning cfg now e el d) = earning_date d"
  "total_earned_usd (updated_daily_earning cfg now e el d) = total_earned_usd d + e"
  "total_earned_luna (updated_daily_earning cfg now e el d) = total_earned_luna d + el"
  "partitions_used (updated_daily_earning cfg now e el d) = partitions_used d"
  by (simp_all add: updated_daily_earning_def Let_def)


text \<open>The path of an accepted click through \<open>process_click_earning\<close>.\<close>

lemma process_click_earning_accepted:
  assumes "process_click_earning cfg now uid energy price s = (Inr (True, eu, el, msg), s')"
  shows "\<exists>did d s1 pn pid p s2 u.
           get_or_create_daily_earning cfg now uid (dt_date now) s = (Inr (did, d), s1) \<and>
           \<not> is_daily_limit_reached d \<and>
           calculate_current_partition cfg now = Inr pn \<and>
           get_or_create_partition cfg uid did pn (dt_date now) s1 = (Inr (pid, p), s2) \<and>
           eu = click_earned_usd cfg p d energy \<and> 0 < eu \<and> price \<noteq> 0 \<and>
           el = py_int ((eu / price) * 1000000) \<and>
           users s2 uid = Some u \<and>
           s' = s2\<lparr>earning_partitions :=
                     update_row pid (updated_partition cfg now eu el p) (earning_partitions s2),
                   daily_earnings :=
                     update_row did (updated_daily_earning cfg now eu el d) (daily_earnings s2),
                   earning_history := earning_history s2 @
                     [\<lparr>eh_user_id = uid, eh_daily_earning_id = did, partition_id = pid,
                       click_timestamp = now, eh_earned_usd = eu, eh_earned_luna = el,
                       luna_price_at_click = price, energy_consumed = energy\<rparr>],
                   users := (users s2)(uid \<mapsto> u\<lparr>balance := balance u + el\<rparr>)\<rparr>"
  using assms
  by (auto simp: process_click_earning_def Let_def
      split: prod.splits sum.splits if_splits option.splits)

text \<open>
  The two rows that an accepted click wrote, as the queries of the service find them
  afterwards, and the rows they were computed from.
\<close>

lemma process_click_earning_accepted_rows:
  assumes "process_click_earning cfg now uid energy price s = (Inr (True, eu, el, msg), s')"
  shows "\<exists>did d0 pn pid p0.
           \<not> is_daily_limit_reached d0 \<and> 0 < eu \<and> price \<noteq> 0 \<and>
           eu = click_earned_usd cfg p0 d0 energy \<and>
           el = py_int ((eu / price) * 1000000) \<and>
           calculate_current_partition cfg now = Inr pn \<and>
           (find_daily_earning s uid (dt_date now) = Inr (Some (did, d0)) \<or>
            find_daily_earning s uid (dt_date now) = Inr None \<and>
            d0 = new_daily_earning cfg now uid (dt_date now)) \<and>
           find_daily_earning s' uid (dt_date now) =
             Inr (Some (did, updated_daily_earning cfg now eu el d0)) \<and>
           find_partition s' uid did pn (dt_date now) =
             Inr (Some (pid, updated_partition cfg now eu el p0))"
proof -
  from process_click_earning_accepted [OF assms]
  obtain did d s1 pn pid p s2 u where
    a: "get_or_create_daily_earning cfg now uid (dt_date now) s = (Inr (did, d), s1)"
    and b: "\<not> is_daily_limit_reached d" "calculate_current_partition cfg now = Inr pn"
    and c: "get_or_create_partition cfg uid did pn (dt_date now) s1 = (Inr (pid, p), s2)"
    and e: "eu = click_earned_usd cfg p d energy" "0 < eu" "price \<noteq> 0"
       "el = py_int ((eu / price) * 1000000)"
    and s': "daily_earnings s' =
               update_row did (updated_daily_earning cfg now eu el d) (daily_earnings s2)"
            "earning_partitions s' =
               update_row pid (updated_partition cfg now eu el p) (earning_partitions s2)"
    by auto
  note pa = get_or_create_daily_earning_post [OF a]
  note pc = get_or_create_partition_post [OF c]
  from pa have fd1: "find_daily_earning s1 uid (dt_date now) = Inr (Some (did, d))" by simp
  from pc have "daily_earnings s2 = daily_earnings s1" by simp
  with fd1 have fd2: "find_daily_earning s2 uid (dt_date now) = Inr (Some (did, d))"
    by (simp add: find_daily_earning_def)
  from pc have fp2: "find_partition s2 uid did pn (dt_date now) = Inr (Some (pid, p))"
    by simp
  have fd': "find_daily_earning s' uid (dt_date now) =
             Inr (Some (did, updated_daily_earning cfg now eu el d))"
    using find_daily_earning_update [OF fd2 _ _ s'(1)] find_daily_earning_key [OF fd2]
    by (simp add: updated_daily_earning_fields)
  have fp': "find_partition s' uid did pn (dt_date now) =
             Inr (Some (pid, updated_partition cfg now eu el p))"
    using find_partition_update [OF fp2 _ _ _ _ s'(2)] find_partition_key [OF fp2]
    by (simp add: updated_partition_fields)
  from pa have "find_daily_earning s uid (dt_date now) = Inr (Some (did, d)) \<or>
            find_daily_earning s uid (dt_date now) = Inr None \<and>
            d = new_daily_earning cfg now uid (dt_date now)"
    using fd1 by auto
  with b e fd' fp' show ?thesis by blast
qed



section \<open>Budget conservation\<close>



section \<open>Rejection at the daily limit\<close>

text \<open>
  C4. When the record of the user for today has \<open>is_daily_limit_reached\<close> set, a click
  with any energy and any price is rejected with the message of the daily limit, and the
  database after the call is the database before it: the record of the day, the
  partitions, the history and the balances are all unchanged.
\<close>

theorem daily_limit_rejection:
  assumes "find_daily_earning s uid (dt_date now) = Inr (Some (did, d))"
    and "is_daily_limit_reached d"
  shows "process_click_earning cfg now uid energy price s =
           (Inr (False, 0, 0, ''Daily earning limit reached''), s)"
  using assms by (simp add: process_click_earning_def get_or_create_daily_earning_def)

theorem daily_limit_rejection_witness:
  "find_daily_earning capped_db 1 (dt_date scenario_time)
     = Inr (Some (1, capped_daily_earning)) \<and>
   is_daily_limit_reached capped_daily_earning \<and>
   process_click_earning default_settings scenario_time 1 200 0 capped_db =
     (Inr (False, 0, 0, ''Daily earning limit reached''), capped_db)"
proof -
  have f: "find_daily_earning capped_db 1 (dt_date scenario_time)
             = Inr (Some (1, capped_daily_earning))"
    by (simp add: find_daily_earning_def select_where_def scalar_one_or_none_def capped_db_def
        capped_daily_earning_def scenario_time_def)
  have r: "is_daily_limit_reached capped_daily_earning"
    by (simp add: capped_daily_earning_def)
  from daily_limit_rejection [OF f r, of default_settings 200 0] f r show ?thesis by simp
qed

section \<open>Partition addressing\<close>



section \<open>The status in the last partition of the day\<close>

text \<open>
  C10. Under the default configuration the end of the last partition is computed as
  24:00, which is no time of day, so \<open>calculate_partition_end_time\<close> raises
  \<open>ValueError\<close> for partition 6. Hence, for a user who has a record for the date asked
  for, \<open>get_daily_earning_status\<close> raises whenever the clock is in the last partition;
  it never returns a status there. (The exception is \<open>ValueError\<close>, unless the query
  for the current partition found several rows and raised before.)
\<close>

theorem status_raises_in_last_partition:
  assumes "find_daily_earning s uid (case target of None \<Rightarrow> dt_date now | Some d \<Rightarrow> d)
             = Inr (Some (did, de))"
    and "calculate_current_partition default_settings now
             = Inr (EARNING_PARTITIONS_COUNT default_settings)"
  shows "calculate_partition_end_time default_settings
            (EARNING_PARTITIONS_COUNT default_settings) date = Inl ValueError \<and>
         (get_daily_earning_status default_settings now uid target s = Inl ValueError \<or>
          get_daily_earning_status default_settings now uid target s
            = Inl MultipleResultsFound)"
proof -
  have e: "\<And>date. calculate_partition_end_time default_settings
            (EARNING_PARTITIONS_COUNT default_settings) date = Inl ValueError"
    by (simp add: calculate_partition_end_time_def default_settings_def time_replace_def)
  have "get_daily_earning_status default_settings now uid target s = Inl ValueError \<or>
          get_daily_earning_status default_settings now uid target s
            = Inl MultipleResultsFound"
    using assms e
    by (auto simp: get_daily_earning_status_def Let_def scalar_one_or_none_def
        split: sum.splits list.splits option.splits)
  with e show ?thesis by simp
qed

theorem status_raises_in_last_partition_witness:
  "find_daily_earning capped_db 1 (case None of None \<Rightarrow> dt_date evening_time | Some d \<Rightarrow> d)
      = Inr (Some (1, capped_daily_earning)) \<and>
   calculate_current_partition default_settings evening_time
      = Inr (EARNING_PARTITIONS_COUNT default_settings) \<and>
   calculate_partition_end_time default_settings 6 738000 = Inl ValueError \<and>
   get_daily_earning_status default_settings evening_time 1 None capped_db = Inl ValueError"
proof -
  have f: "find_daily_earning capped_db 1
             (case None of None \<Rightarrow> dt_date evening_time | Some d \<Rightarrow> d)
           = Inr (Some (1, capped_daily_earning))"
    by (simp add: find_daily_earning_def select_where_def scalar_one_or_none_def capped_db_def
        capped_daily_earning_def evening_time_def)
  have c: "calculate_current_partition default_settings evening_time
      = Inr (EARNING_PARTITIONS_COUNT default_settings)"
    by (simp add: calculate_current_partition_def seconds_since_midnight_def
        default_settings_def evening_time_def)
  have n: "get_daily_earning_status default_settings evening_time 1 None capped_db
        \<noteq> Inl MultipleResultsFound"
    using f c by (simp add: get_daily_earning_status_def select_where_def
        scalar_one_or_none_def capped_db_def calculate_partition_end_time_def
        default_settings_def time_replace_def last_click_time_def)
  from status_raises_in_last_partition [OF f c, of 738000] f c n show ?thesis
    by (simp add: default_settings_def)
qed

section \<open>Monotonicity of the daily totals\<close>

text \<open>A call that is not accepted writes no row; it can only create rows.\<close>

lemma process_click_earning_not_accepted:
  assumes "process_click_earning cfg now uid energy price s = (r, s')"
    and "\<forall>eu el msg. r \<noteq> Inr (True, eu, el, msg)"
  shows "daily_earnings s' = daily_earnings s \<or>
         (find_daily_earning s uid (dt_date now) = Inr None \<and>
          daily_earnings s' =
            daily_earnings s @ [new_daily_earning cfg now uid (dt_date now)])"
proof (cases "get_or_create_daily_earning cfg now uid (dt_date now) s")
  case (Pair r1 s1)
  show ?thesis
  proof (cases r1)
    case (Inl e)
    with Pair assms(1) have "s' = s1"
      by (simp add: process_click_earning_def)
    moreover from Pair Inl have "s1 = s"
      by (auto simp: get_or_create_daily_earning_def Let_def insert_row_def
          split: sum.splits option.splits if_splits)
    ultimately show ?thesis by simp
  next
    case (Inr row)
    obtain did d where row: "row = (did, d)" by (cases row)
    note post = get_or_create_daily_earning_post [OF Pair [unfolded Inr row]]
    have d1: "daily_earnings s1 = daily_earnings s \<or>
         (find_daily_earning s uid (dt_date now) = Inr None \<and>
          daily_earnings s1 =
            daily_earnings s @ [new_daily_earning cfg now uid (dt_date now)])"
      using post by auto
    have "daily_earnings s' = daily_earnings s1"
    proof (cases "is_daily_limit_reached d")
      case True
      with Pair Inr row assms(1) show ?thesis by (simp add: process_click_earning_def)
    next
      case nr: False
      show ?thesis
      proof (cases "calculate_current_partition cfg now")
        case (Inl e)
        with nr Pair Inr row assms(1) show ?thesis by (simp add: process_click_earning_def)
      next
        case pn: (Inr pn)
        show ?thesis
        proof (cases "can_user_earn_in_partition cfg s1 uid pn (dt_date now)")
          case (Inl e)
          with pn nr Pair Inr row assms(1) show ?thesis
            by (simp add: process_click_earning_def)
        next
          case can: (Inr cm)
          obtain c m where cm: "cm = (c, m)" by (cases cm)
          show ?thesis
          proof (cases c)
            case False
            with can cm pn nr Pair Inr row assms(1) show ?thesis
              by (simp add: process_click_earning_def)
          next
            case True
            obtain r2 s2 where gp: "get_or_create_partition cfg uid did pn (dt_date now) s1 = (r2, s2)"
              by (cases "get_or_create_partition cfg uid did pn (dt_date now) s1")
            have d2: "daily_earnings s2 = daily_earnings s1"
              using gp by (auto simp: get_or_create_partition_def Let_def insert_row_def
                  split: sum.splits option.splits if_splits)
            have "s' = s2"
              using assms True can cm pn nr Pair Inr row gp
              by (auto simp: process_click_earning_def Let_def
                  split: sum.splits prod.splits if_splits option.splits)
            with d2 show ?thesis by simp
          qed
        qed
      qed
    qed
    with d1 show ?thesis by simp
  qed
qed

lemma select_where_update_other:
  assumes "1 \<le> i" "i \<le> length t" "\<not> P r" "\<not> P (t ! (i - 1))"
  shows "select_where P (update_row i r t) = select_where P t"
proof -
  have "P r = P (t ! (i - 1))" using assms by simp
  from select_where_update [OF assms(1,2) this]
  have "select_where P (update_row i r t) =
          map (\<lambda>(j, x). (j, if j = i then r else x)) (select_where P t)" .
  also have "\<dots> = select_where P t"
  proof (rule map_idI)
    fix jx assume m: "jx \<in> set (select_where P t)"
    obtain j x where jx: "jx = (j, x)" by (cases jx)
    with m have "t ! (j - 1) = x" "P x" by (simp_all add: select_where_mem)
    with assms(4) have "j \<noteq> i" by auto
    with jx show "(case jx of (j, x) \<Rightarrow> (j, if j = i then r else x)) = jx" by simp
  qed
  finally show ?thesis .
qed

lemma py_int_nonneg: "0 \<le> x \<Longrightarrow> 0 \<le> py_int x"
  by (simp add: py_int_def)

lemma daily_totals_append:
  assumes "daily_earnings s' = daily_earnings s @ [d]"
    and "find_daily_earning s (de_user_id d) (earning_date d) = Inr None \<or>
         \<not> (de_user_id d = uid \<and> earning_date d = date)"
    and "total_earned_usd d = 0" "total_earned_luna d = 0"
  shows "daily_totals s' uid date = daily_totals s uid date"
proof (cases "de_user_id d = uid \<and> earning_date d = date")
  case True
  with assms(2) have n: "find_daily_earning s uid date = Inr None" by auto
  then have "select_where (\<lambda>d. de_user_id d = uid \<and> earning_date d = date)
               (daily_earnings s) = []"
    by (simp add: find_daily_earning_def scalar_one_or_none_None)
  with True assms(1) have "find_daily_earning s' uid date
      = Inr (Some (Suc (length (daily_earnings s)), d))"
    by (simp add: find_daily_earning_def select_where_append scalar_one_or_none_Some)
  with n assms(3,4) show ?thesis by (simp add: daily_totals_def)
next
  case False
  with assms(1) have "find_daily_earning s' uid date = find_daily_earning s uid date"
    by (auto simp: find_daily_earning_def select_where_append)
  then show ?thesis by (simp add: daily_totals_def)
qed

text \<open>
  One call, for any user and at any time, does not lower the total in USD of any record,
  and at a positive price it does not lower the total in tokens either.
\<close>

lemma daily_totals_monotone:
  assumes call: "process_click_earning cfg now uid' energy price s = (r, s')"
  shows "fst (daily_totals s uid date) \<le> fst (daily_totals s' uid date)"
    and "0 < price \<Longrightarrow> snd (daily_totals s uid date) \<le> snd (daily_totals s' uid date)"
proof -
  have "fst (daily_totals s uid date) \<le> fst (daily_totals s' uid date) \<and>
        (0 < price \<longrightarrow> snd (daily_totals s uid date) \<le> snd (daily_totals s' uid date))"
  proof (cases "\<exists>eu el msg. r = Inr (True, eu, el, msg)")
    case False
    from process_click_earning_not_accepted [OF call] False
    have "daily_earnings s' = daily_earnings s \<or>
         (find_daily_earning s uid' (dt_date now) = Inr None \<and>
          daily_earnings s' =
            daily_earnings s @ [new_daily_earning cfg now uid' (dt_date now)])"
      by blast
    then have "daily_totals s' uid date = daily_totals s uid date"
    proof
      assume "daily_earnings s' = daily_earnings s"
      then show ?thesis by (simp add: daily_totals_def find_daily_earning_def)
    next
      assume a: "find_daily_earning s uid' (dt_date now) = Inr None \<and>
          daily_earnings s' =
            daily_earnings s @ [new_daily_earning cfg now uid' (dt_date now)]"
      show ?thesis
        by (rule daily_totals_append [of _ _ "new_daily_earning cfg now uid' (dt_date now)"])
          (use a in \<open>simp_all add: new_daily_earning_def\<close>)
    qed
    then show ?thesis by simp
  next
    case True
    then obtain eu el msg where r: "r = Inr (True, eu, el, msg)" by blast
    from process_click_earning_accepted [OF call [unfolded r]]
    obtain did d s1 pn pid p s2 where
      god: "get_or_create_daily_earning cfg now uid' (dt_date now) s = (Inr (did, d), s1)"
      and gop: "get_or_create_partition cfg uid' did pn (dt_date now) s1 = (Inr (pid, p), s2)"
      and e: "0 < eu" "price \<noteq> 0" "el = py_int ((eu / price) * 1000000)"
      and s': "daily_earnings s' =
                 update_row did (updated_daily_earning cfg now eu el d) (daily_earnings s2)"
      by auto
    note pd = get_or_create_daily_earning_post [OF god]
    note pp = get_or_create_partition_post [OF gop]
    from pp have d2: "daily_earnings s2 = daily_earnings s1" by simp
    from pd have fd1: "find_daily_earning s1 uid' (dt_date now) = Inr (Some (did, d))" by simp
    then have sel1: "select_where (\<lambda>d. de_user_id d = uid' \<and> earning_date d = dt_date now)
        (daily_earnings s1) = [(did, d)]"
      by (simp add: find_daily_earning_def scalar_one_or_none_Some)
    then have "(did, d) \<in> set (select_where (\<lambda>d. de_user_id d = uid' \<and> earning_date d = dt_date now)
        (daily_earnings s1))" by simp
    then have row: "1 \<le> did" "did \<le> length (daily_earnings s1)"
      "daily_earnings s1 ! (did - 1) = d" "de_user_id d = uid'" "earning_date d = dt_date now"
      by (simp_all add: select_where_mem)
    have t1: "daily_totals s1 uid date = daily_totals s uid date"
    proof -
      from pd have "s1 = s \<or> (find_daily_earning s uid' (dt_date now) = Inr None \<and>
            d = new_daily_earning cfg now uid' (dt_date now) \<and>
            s1 = s\<lparr>daily_earnings := daily_earnings s @ [d]\<rparr>)" by simp
      then show ?thesis
      proof
        assume "s1 = s" then show ?thesis by simp
      next
        assume a: "find_daily_earning s uid' (dt_date now) = Inr None \<and>
            d = new_daily_earning cfg now uid' (dt_date now) \<and>
            s1 = s\<lparr>daily_earnings := daily_earnings s @ [d]\<rparr>"
        show ?thesis
          by (rule daily_totals_append [of _ _ d])
            (use a in \<open>simp_all add: new_daily_earning_def\<close>)
      qed
    qed
    have el: "0 < price \<Longrightarrow> 0 \<le> el"
      using e by (simp add: py_int_nonneg)
    show ?thesis
    proof (cases "uid' = uid \<and> dt_date now = date")
      case same: True
      from find_daily_earning_update [OF fd1, of "updated_daily_earning cfg now eu el d" s']
        row s' d2
      have "find_daily_earning s' uid' (dt_date now) =
              Inr (Some (did, updated_daily_earning cfg now eu el d))"
        by (simp add: updated_daily_earning_fields)
      with same have "daily_totals s' uid date =
          (total_earned_usd d + eu, total_earned_luna d + el)"
        by (simp add: daily_totals_def updated_daily_earning_fields)
      moreover from fd1 same have "daily_totals s1 uid date =
          (total_earned_usd d, total_earned_luna d)"
        by (simp add: daily_totals_def)
      ultimately show ?thesis using t1 e(1) el by simp
    next
      case other: False
      have "select_where (\<lambda>d. de_user_id d = uid \<and> earning_date d = date) (daily_earnings s')
          = select_where (\<lambda>d. de_user_id d = uid \<and> earning_date d = date) (daily_earnings s1)"
        unfolding s' d2
        by (rule select_where_update_other)
          (use row other in \<open>auto simp: updated_daily_earning_fields\<close>)
      then have "daily_totals s' uid date = daily_totals s1 uid date"
        by (simp add: daily_totals_def find_daily_earning_def)
      with t1 show ?thesis by simp
    qed
  qed
  then show "fst (daily_totals s uid date) \<le> fst (daily_totals s' uid date)"
    and "0 < price \<Longrightarrow> snd (daily_totals s uid date) \<le> snd (daily_totals s' uid date)"
    by simp_all
qed

text \<open>The same over a sequence of calls whose prices are all positive.\<close>

lemma run_calls_monotone:
  assumes "\<forall>c\<in>set cs. 0 < snd (snd (snd c))"
  shows "fst (daily_totals s uid date) \<le> fst (daily_totals (run_calls cfg cs s) uid date) \<and>
         snd (daily_totals s uid date) \<le> snd (daily_totals (run_calls cfg cs s) uid date)"
  using assms
proof (induction cs arbitrary: s)
  case Nil
  then show ?case by simp
next
  case (Cons c cs)
  obtain now uid' energy price where c: "c = (now, uid', energy, price)" by (cases c)
  define s1 where "s1 = snd (process_click_earning cfg now uid' energy price s)"
  have call: "process_click_earning cfg now uid' energy price s =
                (fst (process_click_earning cfg now uid' energy price s), s1)"
    by (simp add: s1_def)
  from Cons.prems c have pos: "0 < price" by simp
  from daily_totals_monotone [OF call] pos
  have "fst (daily_totals s uid date) \<le> fst (daily_totals s1 uid date)"
    "snd (daily_totals s uid date) \<le> snd (daily_totals s1 uid date)" by simp_all
  moreover from Cons.IH [of s1] Cons.prems
  have "fst (daily_totals s1 uid date) \<le> fst (daily_totals (run_calls cfg cs s1) uid date) \<and>
         snd (daily_totals s1 uid date) \<le> snd (daily_totals (run_calls cfg cs s1) uid date)"
    by simp
  ultimately show ?case by (simp add: c s1_def)
qed

section \<open>Clicks at a price that is not positive\<close>



section \<open>The count of used partitions\<close>

text \<open>
  No operation of the service writes \<open>partitions_used\<close>: an accepted click leaves the
  value that the record had, and a record created by the click has the default 0.
\<close>

lemma accepted_click_keeps_partitions_used:
  assumes "process_click_earning cfg now uid energy price s = (Inr (True, eu, el, msg), s')"
  shows "\<exists>did d'. find_daily_earning s' uid (dt_date now) = Inr (Some (did, d')) \<and>
           (case find_daily_earning s uid (dt_date now) of
              Inr (Some (i, d)) \<Rightarrow> partitions_used d' = partitions_used d
            | _ \<Rightarrow> partitions_used d' = 0)"
proof -
  from process_click_earning_accepted_rows [OF assms]
  obtain did d0 where
    d0: "find_daily_earning s uid (dt_date now) = Inr (Some (did, d0)) \<or>
         find_daily_earning s uid (dt_date now) = Inr None \<and>
         d0 = new_daily_earning cfg now uid (dt_date now)"
    and fd: "find_daily_earning s' uid (dt_date now) =
             Inr (Some (did, updated_daily_earning cfg now eu el d0))"
    by blast
  from d0 have "case find_daily_earning s uid (dt_date now) of
              Inr (Some (i, d)) \<Rightarrow>
                partitions_used (updated_daily_earning cfg now eu el d0) = partitions_used d
            | _ \<Rightarrow> partitions_used (updated_daily_earning cfg now eu el d0) = 0"
    by (auto simp: updated_daily_earning_fields new_daily_earning_def)
  with fd show ?thesis by blast
qed


section \<open>The energy parameters\<close>





section \<open>The projection of the energy\<close>

text \<open>
  What \<open>get_sync_energy\<close> returns for a user with a snapshot whose balance is a whole
  number: the recharge time is bounded by the constant 10800 of the validator, and the
  value never exceeds the maximal energy of a partition.
\<close>

lemma get_sync_energy_projection:
  assumes "user_energy_key r uid = Some snap"
    and "real_of_int \<lfloor>ue_balance snap\<rfloor> = ue_balance snap"
    and "get_cached_energy cfg fetched_price set_reply r = (Inr energy, r')"
  shows "\<exists>res. get_sync_energy cfg now fetched_price set_reply uid r = (Inr res, r') \<and>
           seconds_recharge res = min (py_int now - py_int (ue_sync_at snap)) 10800 \<and>
           sb_value res = min (ue_value snap + charge_per_second energy
                                  * real_of_int (seconds_recharge res))
                              (max_energy_per_part energy) \<and>
           sb_value res \<le> max_energy_per_part energy"
  using assms
  by (simp add: get_sync_energy_def mk_SGetSyncBalance_def calculate_seconds_recharge_def
      Let_def min_def)

text \<open>
  C7. The validator bounds the recharge time by the literal 10800 and not by the
  configured \<open>SECONDS_MAX_RECHARGE\<close>, which \<open>calculate_energy\<close> uses for the maximal
  energy. With \<open>SECONDS_MAX_RECHARGE = 3600\<close>, a price of 0.5 and an empty snapshot that
  is 7200 seconds old, the call returns 7200 seconds of recharge and the value 6250; the
  projection with the configured bound has 3600 seconds and the value 6120.
\<close>

theorem recharge_ignores_configured_maximum:
  "get_sync_energy short_recharge_settings 8200 (Some (1 / 2)) (Some True) 7 drained_redis =
     (Inr \<lparr>sb_balance = 0, sb_value = 6250, sb_sync_at = 1000, seconds_recharge = 7200,
           sb_charge_per_second = 17 / 10\<rparr>,
      drained_redis\<lparr>energy_calc := Some short_recharge_energy\<rparr>) \<and>
   spec_seconds_recharge short_recharge_settings 8200 drained_snapshot = 3600 \<and>
   spec_projected_value short_recharge_settings short_recharge_energy 8200 drained_snapshot
     = 6120"
  by (simp add: get_sync_energy_def get_cached_energy_def calculate_energy_def
      drained_redis_def empty_redis_def drained_snapshot_def short_recharge_energy_def
      mk_SGetSyncBalance_def calculate_seconds_recharge_def py_int_def py_round3_def
      round_half_even_def spec_seconds_recharge_def spec_projected_value_def
      short_recharge_settings_def default_settings_def Let_def)

section \<open>Filling a partition\<close>
















end
